theory Spec2Isabelle
  imports Complex_Main
begin

section \<open>Errors and tensors\<close>

text \<open>
  The notebook builds a 2D U-Net from PyTorch layers and drives it slice by slice over a
  NIfTI volume. The exceptions that the library operations raise on the paths of the
  notebook are the values of one datatype; a failing operation returns \<open>Inl\<close>.
\<close>

datatype error =
    ChannelMismatch
  | KernelExceedsInput
  | PoolOutputTooSmall
  | PoolBadArgument
  | BatchNormSingleValue
  | CatSizeMismatch
  | DimOutOfRange
  | ZeroSizeReduction
  | IndexError
  | BroadcastError
  | FileNotFound

definition bindE :: "error + 'a \<Rightarrow> ('a \<Rightarrow> error + 'b) \<Rightarrow> error + 'b" where
  "bindE m f = (case m of Inl e \<Rightarrow> Inl e | Inr v \<Rightarrow> f v)"

text \<open>
  A tensor of the network is four-dimensional, (batch, channels, height, width), as
  \<open>slc_tensor\<close> is after its two \<open>unsqueeze(0)\<close>. It is a shape and a value at every
  index; values are real numbers (rounding is not modelled).
\<close>

type_synonym dims = "nat \<times> nat \<times> nat \<times> nat"
type_synonym vals = "nat \<Rightarrow> nat \<Rightarrow> nat \<Rightarrow> nat \<Rightarrow> real"

record tensor =
  dims :: dims
  elem :: vals

section \<open>Layers\<close>

text \<open>
  The layer constructors of \<open>torch.nn\<close> that \<open>UNet.__init__\<close> calls, with the
  arguments it passes: \<open>Conv2d in_channels out_channels kernel_size padding bias\<close>,
  \<open>BatchNorm2d num_features\<close>, \<open>ReLU\<close>, \<open>MaxPool2d kernel_size stride\<close>,
  \<open>ConvTranspose2d in_channels out_channels kernel_size stride\<close>, \<open>Softmax dim\<close>.
\<close>

datatype layer =
    Conv2d nat nat nat nat bool
  | BatchNorm2d nat
  | ReLU
  | MaxPool2d nat nat
  | ConvTranspose2d nat nat nat nat
  | Softmax nat

text \<open>
  The learned layers (convolution, batch normalisation, transposed convolution) compute
  values that depend on their weights. The weights are a parameter of the forward pass: for
  the layer registered under a name, in training or evaluation mode, the values of its
  output on an input tensor. Every theorem about the forward pass holds for all of them.
\<close>

type_synonym weights = "string \<Rightarrow> bool \<Rightarrow> tensor \<Rightarrow> vals"

text \<open>
  One layer applied to a tensor. The shapes are those of the PyTorch documentation
  (stride 1 and dilation 1 for \<open>Conv2d\<close>, no padding for the other two); the checks are the
  ones the layers make before computing: the channel count of the input, a kernel no larger
  than the padded input, a pooled output of at least one pixel, and, for batch normalisation
  in training mode, more than one value per channel.
\<close>

fun apply_layer :: "weights \<Rightarrow> bool \<Rightarrow> string \<Rightarrow> layer \<Rightarrow> tensor \<Rightarrow> error + tensor" where
  "apply_layer \<theta> tr nm (Conv2d cin cout k p b) x =
     (case dims x of (n, c, h, w) \<Rightarrow>
        if c \<noteq> cin then Inl ChannelMismatch
        else if h + 2 * p < k \<or> w + 2 * p < k then Inl KernelExceedsInput
        else Inr \<lparr>dims = (n, cout, h + 2 * p - k + 1, w + 2 * p - k + 1),
                  elem = \<theta> nm tr x\<rparr>)"
| "apply_layer \<theta> tr nm (BatchNorm2d f) x =
     (case dims x of (n, c, h, w) \<Rightarrow>
        if c \<noteq> f then Inl ChannelMismatch
        else if tr \<and> n * h * w = 1 then Inl BatchNormSingleValue
        else Inr \<lparr>dims = (n, c, h, w), elem = \<theta> nm tr x\<rparr>)"
| "apply_layer \<theta> tr nm ReLU x =
     Inr \<lparr>dims = dims x, elem = (\<lambda>n c h w. max 0 (elem x n c h w))\<rparr>"
| "apply_layer \<theta> tr nm (MaxPool2d k s) x =
     (case dims x of (n, c, h, w) \<Rightarrow>
        if k = 0 \<or> s = 0 then Inl PoolBadArgument
        else if h < k \<or> w < k then Inl PoolOutputTooSmall
        else Inr \<lparr>dims = (n, c, (h - k) div s + 1, (w - k) div s + 1),
                  elem = (\<lambda>n c i j.
                    Max ((\<lambda>(a, b). elem x n c (i * s + a) (j * s + b)) ` ({..<k} \<times> {..<k})))\<rparr>)"
| "apply_layer \<theta> tr nm (ConvTranspose2d cin cout k s) x =
     (case dims x of (n, c, h, w) \<Rightarrow>
        if c \<noteq> cin then Inl ChannelMismatch
        else Inr \<lparr>dims = (n, cout, h * s + k - s, w * s + k - s), elem = \<theta> nm tr x\<rparr>)"
| "apply_layer \<theta> tr nm (Softmax d) x =
     (case dims x of (n, c, h, w) \<Rightarrow>
        if d = 0 then Inr \<lparr>dims = (n, c, h, w),
          elem = (\<lambda>i j k l. exp (elem x i j k l) / (\<Sum>m<n. exp (elem x m j k l)))\<rparr>
        else if d = 1 then Inr \<lparr>dims = (n, c, h, w),
          elem = (\<lambda>i j k l. exp (elem x i j k l) / (\<Sum>m<c. exp (elem x i m k l)))\<rparr>
        else if d = 2 then Inr \<lparr>dims = (n, c, h, w),
          elem = (\<lambda>i j k l. exp (elem x i j k l) / (\<Sum>m<h. exp (elem x i j m l)))\<rparr>
        else if d = 3 then Inr \<lparr>dims = (n, c, h, w),
          elem = (\<lambda>i j k l. exp (elem x i j k l) / (\<Sum>m<w. exp (elem x i j k m)))\<rparr>
        else Inl DimOutOfRange)"

text \<open>\<open>nn.Sequential\<close> over an ordered dictionary: the named layers in order.\<close>

fun apply_seq :: "weights \<Rightarrow> bool \<Rightarrow> (string \<times> layer) list \<Rightarrow> tensor \<Rightarrow> error + tensor" where
  "apply_seq \<theta> tr [] x = Inr x"
| "apply_seq \<theta> tr ((nm, l) # ls) x = bindE (apply_layer \<theta> tr nm l x) (apply_seq \<theta> tr ls)"

text \<open>\<open>torch.cat((x, y), dim=1)\<close>: every size but the channel count must agree.\<close>

definition torch_cat :: "tensor \<Rightarrow> tensor \<Rightarrow> error + tensor" where
  "torch_cat x y =
     (case dims x of (n1, c1, h1, w1) \<Rightarrow>
      case dims y of (n2, c2, h2, w2) \<Rightarrow>
        if n1 \<noteq> n2 \<or> h1 \<noteq> h2 \<or> w1 \<noteq> w2 then Inl CatSizeMismatch
        else Inr \<lparr>dims = (n1, c1 + c2, h1, w1),
                  elem = (\<lambda>n c h w. if c < c1 then elem x n c h w else elem y n (c - c1) h w)\<rparr>)"

section \<open>The U-Net\<close>

text \<open>\<open>UNet.unet_block\<close>: two 3x3 convolutions, each with batch normalisation and ReLU.\<close>

definition unet_block :: "nat \<Rightarrow> nat \<Rightarrow> string \<Rightarrow> (string \<times> layer) list" where
  "unet_block in_channels features name =
     [(name @ ''conv1'', Conv2d in_channels features 3 1 False),
      (name @ ''norm1'', BatchNorm2d features),
      (name @ ''relu1'', ReLU),
      (name @ ''conv2'', Conv2d features features 3 1 False),
      (name @ ''norm2'', BatchNorm2d features),
      (name @ ''relu2'', ReLU)]"

record unet =
  encoder1 :: "(string \<times> layer) list"
  pool1 :: layer
  encoder2 :: "(string \<times> layer) list"
  pool2 :: layer
  encoder3 :: "(string \<times> layer) list"
  pool3 :: layer
  encoder4 :: "(string \<times> layer) list"
  pool4 :: layer
  bottleneck :: "(string \<times> layer) list"
  upconv4 :: layer
  decoder4 :: "(string \<times> layer) list"
  upconv3 :: layer
  decoder3 :: "(string \<times> layer) list"
  upconv2 :: layer
  decoder2 :: "(string \<times> layer) list"
  upconv1 :: layer
  decoder1 :: "(string \<times> layer) list"
  conv :: layer
  softmax :: layer
  training :: bool

text \<open>
  \<open>UNet.__init__(in_channels, out_channels, init_features)\<close>. A new \<open>nn.Module\<close> is in
  training mode.
\<close>

definition UNet_init :: "nat \<Rightarrow> nat \<Rightarrow> nat \<Rightarrow> unet" where
  "UNet_init in_channels out_channels init_features =
     (let features = init_features in
      \<lparr>encoder1 = unet_block in_channels features ''enc1'',
       pool1 = MaxPool2d 2 2,
       encoder2 = unet_block features (features * 2) ''enc2'',
       pool2 = MaxPool2d 2 2,
       encoder3 = unet_block (features * 2) (features * 4) ''enc3'',
       pool3 = MaxPool2d 2 2,
       encoder4 = unet_block (features * 4) (features * 8) ''enc4'',
       pool4 = MaxPool2d 2 2,
       bottleneck = unet_block (features * 8) (features * 16) ''bottleneck'',
       upconv4 = ConvTranspose2d (features * 16) (features * 8) 2 2,
       decoder4 = unet_block ((features * 8) * 2) (features * 8) ''dec4'',
       upconv3 = ConvTranspose2d (features * 8) (features * 4) 2 2,
       decoder3 = unet_block ((features * 4) * 2) (features * 4) ''dec3'',
       upconv2 = ConvTranspose2d (features * 4) (features * 2) 2 2,
       decoder2 = unet_block ((features * 2) * 2) (features * 2) ''dec2'',
       upconv1 = ConvTranspose2d (features * 2) features 2 2,
       decoder1 = unet_block (features * 2) features ''dec1'',
       conv = Conv2d features out_channels 1 0 True,
       softmax = Softmax 1,
       training = True\<rparr>)"

text \<open>
  The constructor's signature is \<open>(in_channels=1, out_channels=1, init_features=32)\<close>:
  an argument left out (\<open>None\<close>) takes its default.
\<close>

definition UNet :: "nat option \<Rightarrow> nat option \<Rightarrow> nat option \<Rightarrow> unet" where
  "UNet in_channels out_channels init_features =
     UNet_init (case in_channels of None \<Rightarrow> 1 | Some v \<Rightarrow> v)
               (case out_channels of None \<Rightarrow> 1 | Some v \<Rightarrow> v)
               (case init_features of None \<Rightarrow> 32 | Some v \<Rightarrow> v)"

text \<open>\<open>unet = UNet(1, 2)\<close>, \<open>unet.train()\<close> and \<open>unet.eval()\<close>.\<close>

definition notebook_unet :: unet where
  "notebook_unet = UNet (Some 1) (Some 2) None"

definition train_mode :: "unet \<Rightarrow> unet" where
  "train_mode m = m\<lparr>training := True\<rparr>"

definition eval_mode :: "unet \<Rightarrow> unet" where
  "eval_mode m = m\<lparr>training := False\<rparr>"

subsection \<open>Trainable parameters\<close>

text \<open>
  The shapes of the parameter tensors a layer registers: a convolution its weight
  (out, in, k, k) and, with \<open>bias\<close>, a bias; batch normalisation a weight and a bias per
  feature; a transposed convolution its weight (in, out, k, k) and a bias. All of them
  require gradients.
\<close>

fun layer_parameters :: "layer \<Rightarrow> nat list list" where
  "layer_parameters (Conv2d cin cout k p b) =
     [cout, cin, k, k] # (if b then [[cout]] else [])"
| "layer_parameters (BatchNorm2d f) = [[f], [f]]"
| "layer_parameters ReLU = []"
| "layer_parameters (MaxPool2d k s) = []"
| "layer_parameters (ConvTranspose2d cin cout k s) = [[cin, cout, k, k], [cout]]"
| "layer_parameters (Softmax d) = []"

definition seq_parameters :: "(string \<times> layer) list \<Rightarrow> nat list list" where
  "seq_parameters ls = concat (map (\<lambda>(nm, l). layer_parameters l) ls)"

text \<open>\<open>unet.parameters()\<close>, in the order the submodules are registered.\<close>

definition parameters :: "unet \<Rightarrow> nat list list" where
  "parameters m =
     seq_parameters (encoder1 m) @ layer_parameters (pool1 m) @
     seq_parameters (encoder2 m) @ layer_parameters (pool2 m) @
     seq_parameters (encoder3 m) @ layer_parameters (pool3 m) @
     seq_parameters (encoder4 m) @ layer_parameters (pool4 m) @
     seq_parameters (bottleneck m) @
     layer_parameters (upconv4 m) @ seq_parameters (decoder4 m) @
     layer_parameters (upconv3 m) @ seq_parameters (decoder3 m) @
     layer_parameters (upconv2 m) @ seq_parameters (decoder2 m) @
     layer_parameters (upconv1 m) @ seq_parameters (decoder1 m) @
     layer_parameters (conv m) @ layer_parameters (softmax m)"

definition numel :: "nat list \<Rightarrow> nat" where
  "numel shp = prod_list shp"

text \<open>\<open>sum(p.numel() for p in unet.parameters() if p.requires_grad)\<close>.\<close>

definition count_parameters :: "unet \<Rightarrow> nat" where
  "count_parameters m = sum_list (map numel (parameters m))"

subsection \<open>The forward pass\<close>

text \<open>
  The local variables of \<open>UNet.forward\<close>. The source assigns \<open>dec4\<close> three times (the
  transposed convolution, the concatenation, the decoder block); the three values are
  \<open>up4\<close>, \<open>cat4\<close> and \<open>dec4\<close> here, and likewise for the other stages.
\<close>

record acts =
  enc1 :: tensor
  enc2 :: tensor
  enc3 :: tensor
  enc4 :: tensor
  bottom :: tensor
  up4 :: tensor
  cat4 :: tensor
  dec4 :: tensor
  up3 :: tensor
  cat3 :: tensor
  dec3 :: tensor
  up2 :: tensor
  cat2 :: tensor
  dec2 :: tensor
  up1 :: tensor
  cat1 :: tensor
  dec1 :: tensor
  out_conv :: tensor
  out_softmax :: tensor

definition forward_acts :: "weights \<Rightarrow> unet \<Rightarrow> tensor \<Rightarrow> error + acts" where
  "forward_acts \<theta> m x =
     (let tr = training m in
      bindE (apply_seq \<theta> tr (encoder1 m) x) (\<lambda>e1.
      bindE (apply_layer \<theta> tr ''pool1'' (pool1 m) e1) (\<lambda>p1.
      bindE (apply_seq \<theta> tr (encoder2 m) p1) (\<lambda>e2.
      bindE (apply_layer \<theta> tr ''pool2'' (pool2 m) e2) (\<lambda>p2.
      bindE (apply_seq \<theta> tr (encoder3 m) p2) (\<lambda>e3.
      bindE (apply_layer \<theta> tr ''pool3'' (pool3 m) e3) (\<lambda>p3.
      bindE (apply_seq \<theta> tr (encoder4 m) p3) (\<lambda>e4.
      bindE (apply_layer \<theta> tr ''pool4'' (pool4 m) e4) (\<lambda>p4.
      bindE (apply_seq \<theta> tr (bottleneck m) p4) (\<lambda>bn.
      bindE (apply_layer \<theta> tr ''upconv4'' (upconv4 m) bn) (\<lambda>u4.
      bindE (torch_cat u4 e4) (\<lambda>c4.
      bindE (apply_seq \<theta> tr (decoder4 m) c4) (\<lambda>d4.
      bindE (apply_layer \<theta> tr ''upconv3'' (upconv3 m) d4) (\<lambda>u3.
      bindE (torch_cat u3 e3) (\<lambda>c3.
      bindE (apply_seq \<theta> tr (decoder3 m) c3) (\<lambda>d3.
      bindE (apply_layer \<theta> tr ''upconv2'' (upconv2 m) d3) (\<lambda>u2.
      bindE (torch_cat u2 e2) (\<lambda>c2.
      bindE (apply_seq \<theta> tr (decoder2 m) c2) (\<lambda>d2.
      bindE (apply_layer \<theta> tr ''upconv1'' (upconv1 m) d2) (\<lambda>u1.
      bindE (torch_cat u1 e1) (\<lambda>c1.
      bindE (apply_seq \<theta> tr (decoder1 m) c1) (\<lambda>d1.
      bindE (apply_layer \<theta> tr ''conv'' (conv m) d1) (\<lambda>oc.
      bindE (apply_layer \<theta> tr ''softmax'' (softmax m) oc) (\<lambda>out.
      Inr \<lparr>enc1 = e1, enc2 = e2, enc3 = e3, enc4 = e4, bottom = bn,
           up4 = u4, cat4 = c4, dec4 = d4, up3 = u3, cat3 = c3, dec3 = d3,
           up2 = u2, cat2 = c2, dec2 = d2, up1 = u1, cat1 = c1, dec1 = d1,
           out_conv = oc, out_softmax = out\<rparr>))))))))))))))))))))))))"

text \<open>\<open>unet(x)\<close>: the value \<open>forward\<close> returns.\<close>

definition forward :: "weights \<Rightarrow> unet \<Rightarrow> tensor \<Rightarrow> error + tensor" where
  "forward \<theta> m x = bindE (forward_acts \<theta> m x) (\<lambda>a. Inr (out_softmax a))"

section \<open>Slices of a volume and their normalisation\<close>

text \<open>
  A NumPy array is a shape and a value at every index. \<open>training_volume\<close> is
  three-dimensional; \<open>training_volume[:,:,slice_ix]\<close> is the two-dimensional array at
  one index of the last axis.
\<close>

record 'a arr2 =
  shape2 :: "nat \<times> nat"
  at2 :: "nat \<Rightarrow> nat \<Rightarrow> 'a"

record 'a arr3 =
  shape3 :: "nat \<times> nat \<times> nat"
  at3 :: "nat \<Rightarrow> nat \<Rightarrow> nat \<Rightarrow> 'a"

text \<open>
  The values of a floating-point array: a finite number, an infinity or NaN. Rounding,
  overflow and the sign of zero are not modelled.
\<close>

datatype npfloat = Finite real | PosInf | NegInf | NaN

text \<open>
  Division of floating-point values. NumPy raises nothing on a zero divisor (it
  emits a \<open>RuntimeWarning\<close>): a non-zero number over zero is an infinity, zero over
  zero is NaN.
\<close>

fun np_div :: "npfloat \<Rightarrow> npfloat \<Rightarrow> npfloat" where
  "np_div NaN y = NaN"
| "np_div x NaN = NaN"
| "np_div (Finite a) (Finite b) =
     (if b \<noteq> 0 then Finite (a / b)
      else if a = 0 then NaN else if 0 < a then PosInf else NegInf)"
| "np_div (Finite a) PosInf = Finite 0"
| "np_div (Finite a) NegInf = Finite 0"
| "np_div PosInf (Finite b) = (if 0 \<le> b then PosInf else NegInf)"
| "np_div NegInf (Finite b) = (if 0 \<le> b then NegInf else PosInf)"
| "np_div PosInf PosInf = NaN"
| "np_div PosInf NegInf = NaN"
| "np_div NegInf PosInf = NaN"
| "np_div NegInf NegInf = NaN"

fun np_less :: "npfloat \<Rightarrow> npfloat \<Rightarrow> bool" where
  "np_less (Finite a) (Finite b) = (a < b)"
| "np_less (Finite a) PosInf = True"
| "np_less NegInf (Finite b) = True"
| "np_less NegInf PosInf = True"
| "np_less x y = False"

text \<open>The larger of two values; NaN if either is NaN, as \<open>np.max\<close> propagates it.\<close>

definition np_maximum :: "npfloat \<Rightarrow> npfloat \<Rightarrow> npfloat" where
  "np_maximum x acc = (if acc = NaN \<or> x = NaN then NaN else if np_less acc x then x else acc)"

definition arr2_values :: "'a arr2 \<Rightarrow> 'a list" where
  "arr2_values s =
     (case shape2 s of (w, h) \<Rightarrow> concat (map (\<lambda>i. map (\<lambda>j. at2 s i j) [0..<h]) [0..<w]))"

text \<open>\<open>np.max\<close> of a slice; it raises \<open>ValueError\<close> on an array of no elements.\<close>

definition np_max :: "npfloat arr2 \<Rightarrow> error + npfloat" where
  "np_max s = (case arr2_values s of [] \<Rightarrow> Inl ZeroSizeReduction
               | v # vs \<Rightarrow> Inr (fold np_maximum vs v))"

definition get_slice :: "'a arr3 \<Rightarrow> nat \<Rightarrow> error + 'a arr2" where
  "get_slice vol slice_ix =
     (case shape3 vol of (w, h, d) \<Rightarrow>
        if slice_ix < d then Inr \<lparr>shape2 = (w, h), at2 = (\<lambda>i j. at3 vol i j slice_ix)\<rparr>
        else Inl IndexError)"

text \<open>
  \<open>training_volume[:,:,slice_ix].astype(np.single)/np.max(training_volume[:,:,slice_ix])\<close>:
  every value of the slice divided by the maximum of that slice.
\<close>

definition normalize_slice :: "npfloat arr3 \<Rightarrow> nat \<Rightarrow> error + npfloat arr2" where
  "normalize_slice training_volume slice_ix =
     bindE (get_slice training_volume slice_ix) (\<lambda>s.
     bindE (np_max s) (\<lambda>m.
     Inr \<lparr>shape2 = shape2 s, at2 = (\<lambda>i j. np_div (at2 s i j) m)\<rparr>))"

section \<open>The training loop\<close>

text \<open>
  The state of PyTorch that the loop changes (the parameters of the network, their
  gradients, the running statistics of batch normalisation, the moments of the optimizer)
  is one value of a type \<open>'s\<close>, and each library call of the loop is a function on it.
  The functions are a parameter of the loop. The loop records its library calls in order.
\<close>

datatype call = ZeroGrad | Forward nat | Loss nat | Backward | Step | Print nat

record ('s, 'pred, 'lbl, 'l) torch_lib =
  unet_train :: "'s \<Rightarrow> 's"
  optimizer_zero_grad :: "'s \<Rightarrow> 's"
  unet_call :: "'s \<Rightarrow> npfloat arr2 \<Rightarrow> error + 'pred \<times> 's"
  loss_call :: "'pred \<Rightarrow> 'lbl \<Rightarrow> error + 'l"
  backward_call :: "'l \<Rightarrow> 's \<Rightarrow> 's"
  optimizer_step :: "'s \<Rightarrow> 's"

text \<open>The variables of the notebook that the loop assigns, and the calls made so far.\<close>

record ('s, 'pred, 'l) notebook =
  torch :: 's
  pred_var :: "'pred option"
  loss_var :: "'l option"
  calls :: "call list"

fun foldE :: "('s \<Rightarrow> 'a \<Rightarrow> error + 's) \<Rightarrow> 'a list \<Rightarrow> 's \<Rightarrow> error + 's" where
  "foldE f [] s = Inr s"
| "foldE f (x # xs) s = bindE (f s x) (foldE f xs)"

text \<open>
  The body of the inner loop: the normalised slice, then the steps on it. The notebook
  leaves the extraction of \<open>lbl_tensor\<close> to the learner; it is the parameter \<open>lbl_of\<close>,
  from the slice index to the label tensor.
\<close>

definition train_on_slice ::
  "('s, 'pred, 'lbl, 'l) torch_lib \<Rightarrow> (nat \<Rightarrow> error + 'lbl) \<Rightarrow>
   ('s, 'pred, 'l) notebook \<Rightarrow> nat \<Rightarrow> npfloat arr2 \<Rightarrow> error + ('s, 'pred, 'l) notebook" where
  "train_on_slice L lbl_of nb slice_ix slc =
     bindE (lbl_of slice_ix) (\<lambda>lbl_tensor.
     let s1 = optimizer_zero_grad L (torch nb) in
     bindE (unet_call L s1 slc) (\<lambda>(pred, s2).
     bindE (loss_call L pred lbl_tensor) (\<lambda>l.
     let s3 = backward_call L l s2;
         s4 = optimizer_step L s3
     in Inr \<lparr>torch = s4, pred_var = Some pred, loss_var = Some l,
              calls = calls nb @ [ZeroGrad, Forward slice_ix, Loss slice_ix, Backward, Step]\<rparr>)))"

definition train_slice ::
  "('s, 'pred, 'lbl, 'l) torch_lib \<Rightarrow> npfloat arr3 \<Rightarrow> (nat \<Rightarrow> error + 'lbl) \<Rightarrow>
   ('s, 'pred, 'l) notebook \<Rightarrow> nat \<Rightarrow> error + ('s, 'pred, 'l) notebook" where
  "train_slice L training_volume lbl_of nb slice_ix =
     bindE (normalize_slice training_volume slice_ix) (train_on_slice L lbl_of nb slice_ix)"

text \<open>\<open>for slice_ix in range(0,15)\<close>, then the \<open>print\<close> of the epoch.\<close>

definition train_epoch ::
  "('s, 'pred, 'lbl, 'l) torch_lib \<Rightarrow> npfloat arr3 \<Rightarrow> (nat \<Rightarrow> error + 'lbl) \<Rightarrow>
   ('s, 'pred, 'l) notebook \<Rightarrow> nat \<Rightarrow> error + ('s, 'pred, 'l) notebook" where
  "train_epoch L training_volume lbl_of nb epoch =
     bindE (foldE (train_slice L training_volume lbl_of) [0..<15] nb) (\<lambda>nb'.
     Inr (nb'\<lparr>calls := calls nb' @ [Print epoch]\<rparr>))"

text \<open>\<open>unet.train()\<close>, then \<open>for epoch in range(0,10)\<close>.\<close>

definition training_loop ::
  "('s, 'pred, 'lbl, 'l) torch_lib \<Rightarrow> npfloat arr3 \<Rightarrow> (nat \<Rightarrow> error + 'lbl) \<Rightarrow>
   ('s, 'pred, 'l) notebook \<Rightarrow> error + ('s, 'pred, 'l) notebook" where
  "training_loop L training_volume lbl_of nb =
     foldE (train_epoch L training_volume lbl_of) [0..<10]
       (nb\<lparr>torch := unet_train L (torch nb)\<rparr>)"

text \<open>The calls of one slice, of one epoch and of the whole loop, as the claim lists them.\<close>

definition slice_calls :: "nat \<Rightarrow> call list" where
  "slice_calls ix = [ZeroGrad, Forward ix, Loss ix, Backward, Step]"

definition epoch_calls :: "nat \<Rightarrow> call list" where
  "epoch_calls epoch = concat (map slice_calls [0..<15]) @ [Print epoch]"

section \<open>Inference and reconstruction\<close>

text \<open>
  \<open>torch.argmax(pred, dim=0)\<close> on a three-dimensional tensor (channels first): at every
  pixel the index of the first channel holding the largest value. It raises on a tensor
  of no channels.
\<close>

fun argmax_from :: "'v::linorder \<Rightarrow> nat \<Rightarrow> nat \<Rightarrow> 'v list \<Rightarrow> nat" where
  "argmax_from best bi i [] = bi"
| "argmax_from best bi i (x # xs) =
     (if best < x then argmax_from x i (Suc i) xs else argmax_from best bi (Suc i) xs)"

definition first_argmax :: "'v::linorder list \<Rightarrow> nat" where
  "first_argmax xs = (case xs of [] \<Rightarrow> 0 | x # ys \<Rightarrow> argmax_from x 0 1 ys)"

definition torch_argmax_dim0 :: "'v::linorder arr3 \<Rightarrow> error + nat arr2" where
  "torch_argmax_dim0 pred =
     (case shape3 pred of (c, h, w) \<Rightarrow>
        if c = 0 then Inl IndexError
        else Inr \<lparr>shape2 = (h, w),
                  at2 = (\<lambda>i j. first_argmax (map (\<lambda>k. at3 pred k i j) [0..<c]))\<rparr>)"

text \<open>
  Modelled from the spec: the insertion of a label slice ``at the corresponding depth index
  of an output array'' (section 4.3), the assignment \<open>mask3d[:,:,slice_ix] = mask\<close> that
  the notebook leaves to the learner. NumPy broadcasts an axis of length one and raises
  \<open>ValueError\<close> on any other mismatch of shapes.
\<close>

definition set_slice :: "'a arr3 \<Rightarrow> nat \<Rightarrow> 'a arr2 \<Rightarrow> error + 'a arr3" where
  "set_slice a slice_ix m =
     (case shape3 a of (w, h, d) \<Rightarrow>
      case shape2 m of (mw, mh) \<Rightarrow>
        if \<not> slice_ix < d then Inl IndexError
        else if (mw = w \<or> mw = 1) \<and> (mh = h \<or> mh = 1) then
          Inr \<lparr>shape3 = (w, h, d),
               at3 = (\<lambda>i j k. if k = slice_ix
                               then at2 m (if mw = w then i else 0) (if mh = h then j else 0)
                               else at3 a i j k)\<rparr>
        else Inl BroadcastError)"

text \<open>
  Modelled from the spec: one step of the inference loop of section 4.3, which the notebook
  leaves to the learner: normalise the slice as in training, run the forward pass, take
  the arg-max over the channel axis, insert the label slice at the depth index. The
  network is the parameter \<open>net\<close>, from a normalised slice to the prediction with the
  channels first (the batch axis removed).
\<close>

definition infer_slice ::
  "(npfloat arr2 \<Rightarrow> error + 'v::linorder arr3) \<Rightarrow> npfloat arr3 \<Rightarrow> nat arr3 \<Rightarrow> nat \<Rightarrow>
   error + nat arr3" where
  "infer_slice net training_volume mask3d slice_ix =
     bindE (normalize_slice training_volume slice_ix) (\<lambda>slc.
     bindE (net slc) (\<lambda>pred.
     bindE (torch_argmax_dim0 pred) (\<lambda>mask.
     set_slice mask3d slice_ix mask)))"

text \<open>
  Modelled from the spec: the loop of section 4.3 ``for every slice index across the full
  depth of the input Volume'', into ``an output array shaped identically to the input
  Volume'' (the notebook: ``compute segmentation predictions for each slice of your volume
  and turn them into NumPy array of the same shape as the original volume'').
\<close>

definition reconstruct ::
  "(npfloat arr2 \<Rightarrow> error + 'v::linorder arr3) \<Rightarrow> npfloat arr3 \<Rightarrow> error + nat arr3" where
  "reconstruct net training_volume =
     (case shape3 training_volume of (w, h, d) \<Rightarrow>
        foldE (infer_slice net training_volume) [0..<d]
              \<lparr>shape3 = (w, h, d), at3 = (\<lambda>i j k. 0)\<rparr>)"

section \<open>Saving the result\<close>







section \<open>Example inputs\<close>

text \<open>Weights under which every learned layer returns zero, and an image of zeros.\<close>

definition zero_weights :: weights where
  "zero_weights nm tr x = (\<lambda>n c h w. 0)"

definition zero_image :: "nat \<Rightarrow> nat \<Rightarrow> tensor" where
  "zero_image h w = \<lparr>dims = (1, 1, h, w), elem = (\<lambda>n c i j. 0)\<rparr>"

text \<open>
  Two volumes of 15 slices of 1 x 2 voxels: one with the intensities -1000 and 500 in
  every slice (air and bone on the Hounsfield scale of a CT scan), one of zeros.
\<close>

definition ct_volume :: "npfloat arr3" where
  "ct_volume = \<lparr>shape3 = (1, 2, 15),
                at3 = (\<lambda>i j k. if j = 0 then Finite (- 1000) else Finite 500)\<rparr>"

definition zero_volume :: "npfloat arr3" where
  "zero_volume = \<lparr>shape3 = (1, 2, 15), at3 = (\<lambda>i j k. Finite 0)\<rparr>"

text \<open>
  A library whose calls all succeed and whose state counts the optimizer steps, and a
  notebook before the loop.
\<close>

definition counting_lib :: "(nat, unit, unit, unit) torch_lib" where
  "counting_lib = \<lparr>unet_train = (\<lambda>s. s), optimizer_zero_grad = (\<lambda>s. s),
     unet_call = (\<lambda>s slc. Inr ((), s)), loss_call = (\<lambda>p t. Inr ()),
     backward_call = (\<lambda>l s. s), optimizer_step = Suc\<rparr>"

definition fresh_notebook :: "(nat, unit, unit) notebook" where
  "fresh_notebook = \<lparr>torch = 0, pred_var = None, loss_var = None, calls = []\<rparr>"

text \<open>A network of two output channels that scores the second one higher.\<close>

definition second_class_net :: "npfloat arr2 \<Rightarrow> error + real arr3" where
  "second_class_net slc =
     (case shape2 slc of (w, h) \<Rightarrow>
        Inr \<lparr>shape3 = (2, w, h), at3 = (\<lambda>c i j. if c = 1 then 3 / 4 else 1 / 4)\<rparr>)"




section \<open>Properties of the network\<close>

lemma bindE_simps [simp]:
  "bindE (Inl e) f = Inl e"
  "bindE (Inr v) f = f v"
  by (simp_all add: bindE_def)

subsection \<open>Shapes through the layers\<close>

lemma unet_block_dims:
  assumes "dims x = (n, cin, h, w)" "0 < h" "0 < w" "\<not> (tr \<and> n * h * w = 1)"
  shows "\<exists>y. apply_seq \<theta> tr (unet_block cin f nm) x = Inr y \<and> dims y = (n, f, h, w)"
  using assms by (auto simp add: unet_block_def)

lemma unet_block_big:
  assumes "dims x = (n, cin, h, w)" "2 \<le> h" "2 \<le> w"
  shows "\<exists>y. apply_seq \<theta> tr (unet_block cin f nm) x = Inr y \<and> dims y = (n, f, h, w)"
proof -
  have "n * h * w \<noteq> 1" using assms by auto
  then show ?thesis
    using assms unet_block_dims [of x n cin h w tr \<theta> f nm] by simp
qed

lemma unet_block_empty:
  assumes "dims x = (n, cin, h, w)" "h = 0 \<or> w = 0"
  shows "apply_seq \<theta> tr (unet_block cin f nm) x = Inl KernelExceedsInput"
  using assms by (auto simp add: unet_block_def)

lemma unet_block_single:
  assumes "dims x = (1, cin, 1, 1)"
  shows "apply_seq \<theta> True (unet_block cin f nm) x = Inl BatchNormSingleValue"
  using assms by (auto simp add: unet_block_def)

lemma pool_dims:
  assumes "dims x = (n, c, 2 * h, 2 * w)" "0 < h" "0 < w"
  shows "\<exists>y. apply_layer \<theta> tr nm (MaxPool2d 2 2) x = Inr y \<and> dims y = (n, c, h, w)"
proof -
  have "(2 * h - 2) div 2 + 1 = h" "(2 * w - 2) div 2 + 1 = w" using assms by auto
  then show ?thesis using assms by auto
qed

lemma upconv_dims:
  assumes "dims x = (n, cin, h, w)"
  shows "\<exists>y. apply_layer \<theta> tr nm (ConvTranspose2d cin cout 2 2) x = Inr y \<and>
    dims y = (n, cout, 2 * h, 2 * w)"
  using assms by (auto simp add: mult.commute)

lemma cat_dims:
  assumes "dims x = (n, c1, h, w)" "dims y = (n, c2, h, w)"
  shows "\<exists>z. torch_cat x y = Inr z \<and> dims z = (n, c1 + c2, h, w)"
  using assms by (auto simp add: torch_cat_def)

lemma final_dims:
  assumes "dims x = (n, f, h, w)" "0 < h" "0 < w"
  shows "\<exists>oc y. apply_layer \<theta> tr nm (Conv2d f cout 1 0 True) x = Inr oc \<and>
    dims oc = (n, cout, h, w) \<and>
    apply_layer \<theta> tr nm' (Softmax 1) oc = Inr y \<and> dims y = (n, cout, h, w)"
  using assms by auto

text \<open>The contracting path on an input of 16a x 16b pixels.\<close>

lemma contract_dims:
  assumes x: "dims x = (N, cin, 16 * a, 16 * b)" and a: "0 < a" and b: "0 < b"
  obtains e1 p1 e2 p2 e3 p3 e4 p4 where
    "apply_seq \<theta> tr (unet_block cin F ''enc1'') x = Inr e1"
    "dims e1 = (N, F, 16 * a, 16 * b)"
    "apply_layer \<theta> tr ''pool1'' (MaxPool2d 2 2) e1 = Inr p1"
    "apply_seq \<theta> tr (unet_block F (F * 2) ''enc2'') p1 = Inr e2"
    "dims e2 = (N, F * 2, 8 * a, 8 * b)"
    "apply_layer \<theta> tr ''pool2'' (MaxPool2d 2 2) e2 = Inr p2"
    "apply_seq \<theta> tr (unet_block (F * 2) (F * 4) ''enc3'') p2 = Inr e3"
    "dims e3 = (N, F * 4, 4 * a, 4 * b)"
    "apply_layer \<theta> tr ''pool3'' (MaxPool2d 2 2) e3 = Inr p3"
    "apply_seq \<theta> tr (unet_block (F * 4) (F * 8) ''enc4'') p3 = Inr e4"
    "dims e4 = (N, F * 8, 2 * a, 2 * b)"
    "apply_layer \<theta> tr ''pool4'' (MaxPool2d 2 2) e4 = Inr p4"
    "dims p4 = (N, F * 8, a, b)"
proof -
  have s16: "2 \<le> 16 * a" "2 \<le> 16 * b" and s8: "2 \<le> 8 * a" "2 \<le> 8 * b"
    and s4: "2 \<le> 4 * a" "2 \<le> 4 * b" and s2: "2 \<le> 2 * a" "2 \<le> 2 * b"
    and m8: "0 < 8 * a" "0 < 8 * b" and m4: "0 < 4 * a" "0 < 4 * b"
    and m2: "0 < 2 * a" "0 < 2 * b"
    using a b by simp_all
  obtain e1 where e1: "apply_seq \<theta> tr (unet_block cin F ''enc1'') x = Inr e1"
    "dims e1 = (N, F, 16 * a, 16 * b)"
    using unet_block_big [OF x s16] by blast
  have "dims e1 = (N, F, 2 * (8 * a), 2 * (8 * b))" using e1 by simp
  from pool_dims [OF this m8] obtain p1 where
    p1: "apply_layer \<theta> tr ''pool1'' (MaxPool2d 2 2) e1 = Inr p1"
    "dims p1 = (N, F, 8 * a, 8 * b)"
    by blast
  obtain e2 where e2: "apply_seq \<theta> tr (unet_block F (F * 2) ''enc2'') p1 = Inr e2"
    "dims e2 = (N, F * 2, 8 * a, 8 * b)"
    using unet_block_big [OF p1(2) s8] by blast
  have "dims e2 = (N, F * 2, 2 * (4 * a), 2 * (4 * b))" using e2 by simp
  from pool_dims [OF this m4] obtain p2 where
    p2: "apply_layer \<theta> tr ''pool2'' (MaxPool2d 2 2) e2 = Inr p2"
    "dims p2 = (N, F * 2, 4 * a, 4 * b)"
    by blast
  obtain e3 where e3: "apply_seq \<theta> tr (unet_block (F * 2) (F * 4) ''enc3'') p2 = Inr e3"
    "dims e3 = (N, F * 4, 4 * a, 4 * b)"
    using unet_block_big [OF p2(2) s4] by blast
  have "dims e3 = (N, F * 4, 2 * (2 * a), 2 * (2 * b))" using e3 by simp
  from pool_dims [OF this m2] obtain p3 where
    p3: "apply_layer \<theta> tr ''pool3'' (MaxPool2d 2 2) e3 = Inr p3"
    "dims p3 = (N, F * 4, 2 * a, 2 * b)"
    by blast
  obtain e4 where e4: "apply_seq \<theta> tr (unet_block (F * 4) (F * 8) ''enc4'') p3 = Inr e4"
    "dims e4 = (N, F * 8, 2 * a, 2 * b)"
    using unet_block_big [OF p3(2) s2] by blast
  from pool_dims [OF e4(2) a b] obtain p4 where
    p4: "apply_layer \<theta> tr ''pool4'' (MaxPool2d 2 2) e4 = Inr p4"
    "dims p4 = (N, F * 8, a, b)"
    by blast
  show ?thesis
    using that [OF e1 p1(1) e2 p2(1) e3 p3(1) e4 p4] .
qed


lemma unet_fields:
  "training ((UNet_init cin cout F)\<lparr>training := tr\<rparr>) = tr"
  "encoder1 ((UNet_init cin cout F)\<lparr>training := tr\<rparr>) = unet_block cin F ''enc1''"
  "encoder2 ((UNet_init cin cout F)\<lparr>training := tr\<rparr>) = unet_block F (F * 2) ''enc2''"
  "encoder3 ((UNet_init cin cout F)\<lparr>training := tr\<rparr>) = unet_block (F * 2) (F * 4) ''enc3''"
  "encoder4 ((UNet_init cin cout F)\<lparr>training := tr\<rparr>) = unet_block (F * 4) (F * 8) ''enc4''"
  "bottleneck ((UNet_init cin cout F)\<lparr>training := tr\<rparr>) =
     unet_block (F * 8) (F * 16) ''bottleneck''"
  "decoder4 ((UNet_init cin cout F)\<lparr>training := tr\<rparr>) = unet_block (F * 8 * 2) (F * 8) ''dec4''"
  "decoder3 ((UNet_init cin cout F)\<lparr>training := tr\<rparr>) = unet_block (F * 4 * 2) (F * 4) ''dec3''"
  "decoder2 ((UNet_init cin cout F)\<lparr>training := tr\<rparr>) = unet_block (F * 2 * 2) (F * 2) ''dec2''"
  "decoder1 ((UNet_init cin cout F)\<lparr>training := tr\<rparr>) = unet_block (F * 2) F ''dec1''"
  "pool1 ((UNet_init cin cout F)\<lparr>training := tr\<rparr>) = MaxPool2d 2 2"
  "pool2 ((UNet_init cin cout F)\<lparr>training := tr\<rparr>) = MaxPool2d 2 2"
  "pool3 ((UNet_init cin cout F)\<lparr>training := tr\<rparr>) = MaxPool2d 2 2"
  "pool4 ((UNet_init cin cout F)\<lparr>training := tr\<rparr>) = MaxPool2d 2 2"
  "upconv4 ((UNet_init cin cout F)\<lparr>training := tr\<rparr>) = ConvTranspose2d (F * 16) (F * 8) 2 2"
  "upconv3 ((UNet_init cin cout F)\<lparr>training := tr\<rparr>) = ConvTranspose2d (F * 8) (F * 4) 2 2"
  "upconv2 ((UNet_init cin cout F)\<lparr>training := tr\<rparr>) = ConvTranspose2d (F * 4) (F * 2) 2 2"
  "upconv1 ((UNet_init cin cout F)\<lparr>training := tr\<rparr>) = ConvTranspose2d (F * 2) F 2 2"
  "conv ((UNet_init cin cout F)\<lparr>training := tr\<rparr>) = Conv2d F cout 1 0 True"
  "softmax ((UNet_init cin cout F)\<lparr>training := tr\<rparr>) = Softmax 1"
  by (simp_all add: UNet_init_def)

text \<open>The whole pass succeeds unless batch normalisation meets a single value.\<close>

lemma forward_acts_dims:
  assumes x: "dims x = (N, cin, 16 * a, 16 * b)" and a: "0 < a" and b: "0 < b"
    and bn: "\<not> (tr \<and> N * a * b = 1)"
  shows "\<exists>A. forward_acts \<theta> ((UNet_init cin cout F)\<lparr>training := tr\<rparr>) x = Inr A \<and>
    dims (enc1 A) = (N, F, 16 * a, 16 * b) \<and> dims (up1 A) = (N, F, 16 * a, 16 * b) \<and>
    torch_cat (up1 A) (enc1 A) = Inr (cat1 A) \<and>
    dims (enc2 A) = (N, F * 2, 8 * a, 8 * b) \<and> dims (up2 A) = (N, F * 2, 8 * a, 8 * b) \<and>
    torch_cat (up2 A) (enc2 A) = Inr (cat2 A) \<and>
    dims (enc3 A) = (N, F * 4, 4 * a, 4 * b) \<and> dims (up3 A) = (N, F * 4, 4 * a, 4 * b) \<and>
    torch_cat (up3 A) (enc3 A) = Inr (cat3 A) \<and>
    dims (enc4 A) = (N, F * 8, 2 * a, 2 * b) \<and> dims (up4 A) = (N, F * 8, 2 * a, 2 * b) \<and>
    torch_cat (up4 A) (enc4 A) = Inr (cat4 A) \<and>
    dims (out_softmax A) = (N, cout, 16 * a, 16 * b)"
proof -
  have s16: "2 \<le> 16 * a" "2 \<le> 16 * b" and s8: "2 \<le> 8 * a" "2 \<le> 8 * b"
    and s4: "2 \<le> 4 * a" "2 \<le> 4 * b" and s2: "2 \<le> 2 * a" "2 \<le> 2 * b"
    and m16: "0 < 16 * a" "0 < 16 * b"
    using a b by simp_all
  obtain e1 p1 e2 p2 e3 p3 e4 p4 where c:
    "apply_seq \<theta> tr (unet_block cin F ''enc1'') x = Inr e1"
    "dims e1 = (N, F, 16 * a, 16 * b)"
    "apply_layer \<theta> tr ''pool1'' (MaxPool2d 2 2) e1 = Inr p1"
    "apply_seq \<theta> tr (unet_block F (F * 2) ''enc2'') p1 = Inr e2"
    "dims e2 = (N, F * 2, 8 * a, 8 * b)"
    "apply_layer \<theta> tr ''pool2'' (MaxPool2d 2 2) e2 = Inr p2"
    "apply_seq \<theta> tr (unet_block (F * 2) (F * 4) ''enc3'') p2 = Inr e3"
    "dims e3 = (N, F * 4, 4 * a, 4 * b)"
    "apply_layer \<theta> tr ''pool3'' (MaxPool2d 2 2) e3 = Inr p3"
    "apply_seq \<theta> tr (unet_block (F * 4) (F * 8) ''enc4'') p3 = Inr e4"
    "dims e4 = (N, F * 8, 2 * a, 2 * b)"
    "apply_layer \<theta> tr ''pool4'' (MaxPool2d 2 2) e4 = Inr p4"
    "dims p4 = (N, F * 8, a, b)"
    using contract_dims [OF x a b] by metis
  obtain bt where bt: "apply_seq \<theta> tr (unet_block (F * 8) (F * 16) ''bottleneck'') p4 = Inr bt"
    "dims bt = (N, F * 16, a, b)"
    using unet_block_dims [OF c(13) a b bn] by blast
  obtain u4 where u4: "apply_layer \<theta> tr ''upconv4'' (ConvTranspose2d (F * 16) (F * 8) 2 2) bt = Inr u4"
    "dims u4 = (N, F * 8, 2 * a, 2 * b)"
    using upconv_dims [OF bt(2)] by blast
  obtain c4 where c4: "torch_cat u4 e4 = Inr c4" "dims c4 = (N, F * 8 + F * 8, 2 * a, 2 * b)"
    using cat_dims [OF u4(2) c(11)] by blast
  have "dims c4 = (N, F * 8 * 2, 2 * a, 2 * b)" using c4 by simp
  from unet_block_big [OF this s2] obtain d4 where
    d4: "apply_seq \<theta> tr (unet_block (F * 8 * 2) (F * 8) ''dec4'') c4 = Inr d4"
    "dims d4 = (N, F * 8, 2 * a, 2 * b)"
    by blast
  obtain u3 where u3: "apply_layer \<theta> tr ''upconv3'' (ConvTranspose2d (F * 8) (F * 4) 2 2) d4 = Inr u3"
    "dims u3 = (N, F * 4, 2 * (2 * a), 2 * (2 * b))"
    using upconv_dims [OF d4(2)] by blast
  have u3': "dims u3 = (N, F * 4, 4 * a, 4 * b)" using u3 by simp
  obtain c3 where c3: "torch_cat u3 e3 = Inr c3" "dims c3 = (N, F * 4 + F * 4, 4 * a, 4 * b)"
    using cat_dims [OF u3' c(8)] by blast
  have "dims c3 = (N, F * 4 * 2, 4 * a, 4 * b)" using c3 by simp
  from unet_block_big [OF this s4] obtain d3 where
    d3: "apply_seq \<theta> tr (unet_block (F * 4 * 2) (F * 4) ''dec3'') c3 = Inr d3"
    "dims d3 = (N, F * 4, 4 * a, 4 * b)"
    by blast
  obtain u2 where u2: "apply_layer \<theta> tr ''upconv2'' (ConvTranspose2d (F * 4) (F * 2) 2 2) d3 = Inr u2"
    "dims u2 = (N, F * 2, 2 * (4 * a), 2 * (4 * b))"
    using upconv_dims [OF d3(2)] by blast
  have u2': "dims u2 = (N, F * 2, 8 * a, 8 * b)" using u2 by simp
  obtain c2 where c2: "torch_cat u2 e2 = Inr c2" "dims c2 = (N, F * 2 + F * 2, 8 * a, 8 * b)"
    using cat_dims [OF u2' c(5)] by blast
  have "dims c2 = (N, F * 2 * 2, 8 * a, 8 * b)" using c2 by simp
  from unet_block_big [OF this s8] obtain d2 where
    d2: "apply_seq \<theta> tr (unet_block (F * 2 * 2) (F * 2) ''dec2'') c2 = Inr d2"
    "dims d2 = (N, F * 2, 8 * a, 8 * b)"
    by blast
  obtain u1 where u1: "apply_layer \<theta> tr ''upconv1'' (ConvTranspose2d (F * 2) F 2 2) d2 = Inr u1"
    "dims u1 = (N, F, 2 * (8 * a), 2 * (8 * b))"
    using upconv_dims [OF d2(2)] by blast
  have u1': "dims u1 = (N, F, 16 * a, 16 * b)" using u1 by simp
  obtain c1 where c1: "torch_cat u1 e1 = Inr c1" "dims c1 = (N, F + F, 16 * a, 16 * b)"
    using cat_dims [OF u1' c(2)] by blast
  have "dims c1 = (N, F * 2, 16 * a, 16 * b)" using c1 by simp
  from unet_block_big [OF this s16] obtain d1 where
    d1: "apply_seq \<theta> tr (unet_block (F * 2) F ''dec1'') c1 = Inr d1"
    "dims d1 = (N, F, 16 * a, 16 * b)"
    by blast
  obtain oc y where f: "apply_layer \<theta> tr ''conv'' (Conv2d F cout 1 0 True) d1 = Inr oc"
    "apply_layer \<theta> tr ''softmax'' (Softmax 1) oc = Inr y" "dims y = (N, cout, 16 * a, 16 * b)"
    using final_dims [OF d1(2) m16] by blast
  have "forward_acts \<theta> ((UNet_init cin cout F)\<lparr>training := tr\<rparr>) x =
    Inr \<lparr>enc1 = e1, enc2 = e2, enc3 = e3, enc4 = e4, bottom = bt,
         up4 = u4, cat4 = c4, dec4 = d4, up3 = u3, cat3 = c3, dec3 = d3,
         up2 = u2, cat2 = c2, dec2 = d2, up1 = u1, cat1 = c1, dec1 = d1,
         out_conv = oc, out_softmax = y\<rparr>"
    unfolding forward_acts_def Let_def unet_fields
    by (simp only: c(1,3,4,6,7,9,10,12) bt(1) u4(1) c4(1) d4(1) u3(1) c3(1) d3(1)
        u2(1) c2(1) d2(1) u1(1) c1(1) d1(1) f(1,2) bindE_simps)
  then show ?thesis
    using c(2,5,8,11) u4(2) u3' u2' u1' c4(1) c3(1) c2(1) c1(1) f(3) by simp
qed


lemma forward_acts_empty:
  assumes "dims x = (N, cin, H, W)" "H = 0 \<or> W = 0"
  shows "forward_acts \<theta> ((UNet_init cin cout F)\<lparr>training := tr\<rparr>) x = Inl KernelExceedsInput"
  unfolding forward_acts_def Let_def unet_fields
  by (simp only: unet_block_empty [OF assms] bindE_simps)

lemma forward_acts_single:
  assumes x: "dims x = (1, cin, 16, 16)"
  shows "forward_acts \<theta> ((UNet_init cin cout F)\<lparr>training := True\<rparr>) x =
    Inl BatchNormSingleValue"
proof -
  have x': "dims x = (1, cin, 16 * 1, 16 * 1)" using x by simp
  obtain e1 p1 e2 p2 e3 p3 e4 p4 where c:
    "apply_seq \<theta> True (unet_block cin F ''enc1'') x = Inr e1"
    "apply_layer \<theta> True ''pool1'' (MaxPool2d 2 2) e1 = Inr p1"
    "apply_seq \<theta> True (unet_block F (F * 2) ''enc2'') p1 = Inr e2"
    "apply_layer \<theta> True ''pool2'' (MaxPool2d 2 2) e2 = Inr p2"
    "apply_seq \<theta> True (unet_block (F * 2) (F * 4) ''enc3'') p2 = Inr e3"
    "apply_layer \<theta> True ''pool3'' (MaxPool2d 2 2) e3 = Inr p3"
    "apply_seq \<theta> True (unet_block (F * 4) (F * 8) ''enc4'') p3 = Inr e4"
    "apply_layer \<theta> True ''pool4'' (MaxPool2d 2 2) e4 = Inr p4"
    "dims p4 = (1, F * 8, 1, 1)"
    using contract_dims [OF x', of \<theta> True F] by (metis zero_less_one)
  show ?thesis
    unfolding forward_acts_def Let_def unet_fields
    by (simp only: c(1-8) unet_block_single [OF c(9)] bindE_simps)
qed



lemma forward_Inl:
  "forward \<theta> m x = Inl e \<longleftrightarrow> forward_acts \<theta> m x = Inl e"
  unfolding forward_def bindE_def by (auto split: sum.splits)




subsection \<open>The claims about the network\<close>

text \<open>
  C4. The network the notebook instantiates, \<open>UNet(1, 2)\<close> with 32 initial features, has
  7762498 trainable parameters: the sum, over every parameter tensor, of its element count.
\<close>

theorem parameter_count_canonical:
  "count_parameters (UNet (Some 1) (Some 2) (Some 32)) = 7762498"
  by (simp add: count_parameters_def parameters_def UNet_def UNet_init_def unet_block_def
      seq_parameters_def numel_def)

lemma notebook_unet_init: "notebook_unet = UNet_init 1 2 32"
  by (simp add: notebook_unet_def UNet_def)

lemma mode_update:
  "train_mode (UNet_init cin cout F) = (UNet_init cin cout F)\<lparr>training := True\<rparr>"
  "eval_mode (UNet_init cin cout F) = (UNet_init cin cout F)\<lparr>training := False\<rparr>"
  by (simp_all add: train_mode_def eval_mode_def)




text \<open>
  C8. For an input whose height and width are divisible by 16, the forward pass never
  fails on a size mismatch of a concatenation nor on a channel mismatch of a layer; and
  when it runs through, each concatenation joins the upsampled tensor of stage i with the
  activation that the contracting stage i produced before its pooling, of the same batch,
  channel count, height and width: enc4 with dec4 at an eighth of the input size, enc3 with
  dec3 at a quarter, enc2 with dec2 at half, enc1 with dec1 at full size.
\<close>

theorem skip_connections_match:
  assumes "dims x = (N, cin, H, W)" "16 dvd H" "16 dvd W"
  shows "forward \<theta> ((UNet_init cin cout F)\<lparr>training := tr\<rparr>) x \<noteq> Inl CatSizeMismatch \<and>
    forward \<theta> ((UNet_init cin cout F)\<lparr>training := tr\<rparr>) x \<noteq> Inl ChannelMismatch \<and>
    (\<forall>A. forward_acts \<theta> ((UNet_init cin cout F)\<lparr>training := tr\<rparr>) x = Inr A \<longrightarrow>
      dims (enc4 A) = (N, F * 8, H div 8, W div 8) \<and>
      dims (up4 A) = (N, F * 8, H div 8, W div 8) \<and>
      torch_cat (up4 A) (enc4 A) = Inr (cat4 A) \<and>
      dims (enc3 A) = (N, F * 4, H div 4, W div 4) \<and>
      dims (up3 A) = (N, F * 4, H div 4, W div 4) \<and>
      torch_cat (up3 A) (enc3 A) = Inr (cat3 A) \<and>
      dims (enc2 A) = (N, F * 2, H div 2, W div 2) \<and>
      dims (up2 A) = (N, F * 2, H div 2, W div 2) \<and>
      torch_cat (up2 A) (enc2 A) = Inr (cat2 A) \<and>
      dims (enc1 A) = (N, F, H, W) \<and>
      dims (up1 A) = (N, F, H, W) \<and>
      torch_cat (up1 A) (enc1 A) = Inr (cat1 A))"
proof (cases "H = 0 \<or> W = 0")
  case True
  from forward_acts_empty [OF assms(1) True]
  show ?thesis unfolding forward_Inl by simp
next
  case False
  obtain a b where ab: "H = 16 * a" "W = 16 * b" using assms(2,3) unfolding dvd_def by blast
  have pos: "0 < a" "0 < b" using ab False by simp_all
  show ?thesis
  proof (cases "tr \<and> N * a * b = 1")
    case True
    then have "dims x = (1, cin, 16, 16)" "tr = True" using assms(1) ab by auto
    from forward_acts_single [OF this(1)] this(2)
    show ?thesis unfolding forward_Inl by simp
  next
    case False
    from forward_acts_dims [OF assms(1) [unfolded ab] pos False, where \<theta> = \<theta> and cout = cout and F = F]
    show ?thesis unfolding forward_Inl ab by auto
  qed
qed

text \<open>The pairing on one image of 32 x 32 pixels in training mode.\<close>

theorem skip_connections_match_witness:
  "\<exists>A. forward_acts zero_weights (train_mode notebook_unet) (zero_image 32 32) = Inr A \<and>
     dims (enc4 A) = (1, 256, 4, 4) \<and> dims (up4 A) = (1, 256, 4, 4) \<and>
     dims (enc3 A) = (1, 128, 8, 8) \<and> dims (up3 A) = (1, 128, 8, 8) \<and>
     dims (enc2 A) = (1, 64, 16, 16) \<and> dims (up2 A) = (1, 64, 16, 16) \<and>
     dims (enc1 A) = (1, 32, 32, 32) \<and> dims (up1 A) = (1, 32, 32, 32)"
proof -
  have d: "dims (zero_image 32 32) = (1, 1, 16 * 2, 16 * 2)" by (simp add: zero_image_def)
  obtain A where A: "forward_acts zero_weights ((UNet_init 1 2 32)\<lparr>training := True\<rparr>)
      (zero_image 32 32) = Inr A"
    using forward_acts_dims [OF d, where tr = True and \<theta> = zero_weights and cout = 2 and F = 32] by auto
  have d': "dims (zero_image 32 32) = (1, 1, 32, 32)" by (simp add: zero_image_def)
  from skip_connections_match [OF d', where \<theta> = zero_weights and cout = 2 and F = 32 and tr = True] A
  show ?thesis unfolding notebook_unet_init mode_update by simp
qed





section \<open>Properties of the slice driver\<close>

subsection \<open>Normalisation\<close>

lemma arr2_values_set:
  assumes "shape2 s = (w, h)"
  shows "set (arr2_values s) = {at2 s i j | i j. i < w \<and> j < h}"
  using assms by (auto simp add: arr2_values_def) blast

lemma fold_np_maximum_zero:
  "\<forall>v\<in>set vs. v = Finite 0 \<Longrightarrow> fold np_maximum vs (Finite 0) = Finite 0"
  by (induction vs) (auto simp add: np_maximum_def)

lemma np_max_zero:
  assumes s: "shape2 s = (w, h)" and pos: "0 < w" "0 < h"
    and zero: "\<forall>i<w. \<forall>j<h. at2 s i j = Finite 0"
  shows "np_max s = Inr (Finite 0)"
proof -
  have all: "\<forall>v\<in>set (arr2_values s). v = Finite 0"
    using zero unfolding arr2_values_set [OF s] by auto
  have "at2 s 0 0 \<in> set (arr2_values s)"
    unfolding arr2_values_set [OF s] using pos by blast
  then obtain v vs where vs: "arr2_values s = v # vs"
    by (cases "arr2_values s") auto
  then have "v = Finite 0" "\<forall>u\<in>set vs. u = Finite 0" using all by auto
  then show ?thesis
    unfolding np_max_def vs by (simp add: fold_np_maximum_zero)
qed

text \<open>
  C7, as amended. A slice of zeros has maximum zero, and its normalisation raises nothing:
  it returns a slice of the same shape whose every value is NaN, and the training step
  carries on with that slice.
\<close>

theorem zero_slice_gives_nan:
  assumes "shape3 vol = (w, h, d)" "ix < d" "0 < w" "0 < h"
    and "\<forall>i<w. \<forall>j<h. at3 vol i j ix = Finite 0"
  shows "\<exists>slc. normalize_slice vol ix = Inr slc \<and> shape2 slc = (w, h) \<and>
    (\<forall>i<w. \<forall>j<h. at2 slc i j = NaN) \<and>
    train_slice L vol lbl_of nb ix = train_on_slice L lbl_of nb ix slc"
proof -
  let ?s = "\<lparr>shape2 = (w, h), at2 = (\<lambda>i j. at3 vol i j ix)\<rparr>"
  have g: "get_slice vol ix = Inr ?s" using assms(1,2) by (simp add: get_slice_def)
  have m: "np_max ?s = Inr (Finite 0)"
    using np_max_zero [of ?s w h] assms(3,4,5) by simp
  have n: "normalize_slice vol ix =
    Inr \<lparr>shape2 = (w, h), at2 = (\<lambda>i j. np_div (at3 vol i j ix) (Finite 0))\<rparr>"
    by (simp add: normalize_slice_def g m)
  show ?thesis
    unfolding train_slice_def n using assms(5) by simp
qed

theorem zero_slice_gives_nan_witness:
  "\<exists>slc. normalize_slice zero_volume 3 = Inr slc \<and> shape2 slc = (1, 2) \<and>
     at2 slc 0 0 = NaN \<and> at2 slc 0 1 = NaN \<and>
     train_slice counting_lib zero_volume (\<lambda>ix. Inr ()) fresh_notebook 3 =
       train_on_slice counting_lib (\<lambda>ix. Inr ()) fresh_notebook 3 slc"
  using zero_slice_gives_nan [where vol = zero_volume and w = 1 and h = 2 and d = 15 and ix = 3
      and L = counting_lib and lbl_of = "\<lambda>ix. Inr ()" and nb = fresh_notebook]
  by (auto simp add: zero_volume_def)

text \<open>
  C5 fails on a slice with a negative intensity: -1000 and 500 normalise to -2 and 1.
\<close>

theorem normalize_negative_intensity:
  "\<exists>slc. normalize_slice ct_volume 0 = Inr slc \<and>
     at2 slc 0 0 = Finite (- 2) \<and> at2 slc 0 1 = Finite 1"
  by (simp add: normalize_slice_def get_slice_def ct_volume_def np_max_def arr2_values_def
      np_maximum_def upt_rec)

subsection \<open>Saving\<close>



subsection \<open>The loop\<close>

lemma bindE_Inr:
  "bindE m f = Inr y \<longleftrightarrow> (\<exists>v. m = Inr v \<and> f v = Inr y)"
  by (cases m) simp_all

lemma foldE_append:
  "foldE f (xs @ ys) s = bindE (foldE f xs s) (foldE f ys)"
proof (induction xs arbitrary: s)
  case Nil
  show ?case by simp
next
  case (Cons x xs)
  show ?case by (cases "f s x") (simp_all add: Cons.IH)
qed

lemma foldE_total:
  assumes "\<forall>x\<in>set xs. \<forall>s. \<exists>s'. f s x = Inr s'"
  shows "\<exists>s'. foldE f xs s = Inr s'"
  using assms
proof (induction xs arbitrary: s)
  case Nil
  show ?case by simp
next
  case (Cons x xs)
  then obtain s1 where "f s x = Inr s1" by fastforce
  then show ?case using Cons by simp
qed

lemma train_on_slice_Inr:
  "train_on_slice L lbl_of nb ix slc = Inr nb' \<longleftrightarrow>
   (\<exists>lbl pred s2 l. lbl_of ix = Inr lbl \<and>
      unet_call L (optimizer_zero_grad L (torch nb)) slc = Inr (pred, s2) \<and>
      loss_call L pred lbl = Inr l \<and>
      nb' = \<lparr>torch = optimizer_step L (backward_call L l s2), pred_var = Some pred,
             loss_var = Some l, calls = calls nb @ slice_calls ix\<rparr>)"
  unfolding train_on_slice_def Let_def slice_calls_def
  by (auto simp add: bindE_Inr split: prod.splits)

lemma normalize_slice_Inr:
  "normalize_slice vol ix = Inr slc \<longleftrightarrow>
   (\<exists>raw m. get_slice vol ix = Inr raw \<and> np_max raw = Inr m \<and>
      slc = \<lparr>shape2 = shape2 raw, at2 = (\<lambda>i j. np_div (at2 raw i j) m)\<rparr>)"
  unfolding normalize_slice_def bindE_Inr by auto

lemma train_slice_calls:
  assumes "train_slice L vol lbl_of nb ix = Inr nb'"
  shows "calls nb' = calls nb @ slice_calls ix"
  using assms unfolding train_slice_def bindE_Inr train_on_slice_Inr by auto

lemma slices_calls:
  assumes "foldE (train_slice L vol lbl_of) ixs nb = Inr nb'"
  shows "calls nb' = calls nb @ concat (map slice_calls ixs)"
  using assms
proof (induction ixs arbitrary: nb)
  case Nil
  then show ?case by simp
next
  case (Cons ix ixs)
  then obtain nb1 where s: "train_slice L vol lbl_of nb ix = Inr nb1"
    "foldE (train_slice L vol lbl_of) ixs nb1 = Inr nb'"
    by (auto simp add: bindE_Inr)
  show ?case using train_slice_calls [OF s(1)] Cons.IH [OF s(2)] by simp
qed

lemma train_epoch_calls:
  assumes "train_epoch L vol lbl_of nb epoch = Inr nb'"
  shows "calls nb' = calls nb @ epoch_calls epoch"
  using assms unfolding train_epoch_def bindE_Inr epoch_calls_def
  by (auto dest: slices_calls)

lemma epochs_calls:
  assumes "foldE (train_epoch L vol lbl_of) es nb = Inr nb'"
  shows "calls nb' = calls nb @ concat (map epoch_calls es)"
  using assms
proof (induction es arbitrary: nb)
  case Nil
  then show ?case by simp
next
  case (Cons e es)
  then obtain nb1 where s: "train_epoch L vol lbl_of nb e = Inr nb1"
    "foldE (train_epoch L vol lbl_of) es nb1 = Inr nb'"
    by (auto simp add: bindE_Inr)
  show ?case using train_epoch_calls [OF s(1)] Cons.IH [OF s(2)] by simp
qed

lemma training_loop_calls:
  assumes "training_loop L vol lbl_of nb = Inr nb'"
  shows "calls nb' = calls nb @ concat (map epoch_calls [0..<10])"
  using epochs_calls [OF assms [unfolded training_loop_def]] by simp

text \<open>The loop runs through when the volume has 15 slices and every call returns.\<close>

lemma np_max_total:
  assumes "shape2 s = (w, h)" "0 < w" "0 < h"
  shows "\<exists>m. np_max s = Inr m"
proof -
  have "at2 s 0 0 \<in> set (arr2_values s)"
    unfolding arr2_values_set [OF assms(1)] using assms(2,3) by blast
  then show ?thesis unfolding np_max_def by (cases "arr2_values s") auto
qed

lemma normalize_slice_total:
  assumes "shape3 vol = (w, h, d)" "ix < d" "0 < w" "0 < h"
  shows "\<exists>slc. normalize_slice vol ix = Inr slc"
proof -
  let ?s = "\<lparr>shape2 = (w, h), at2 = (\<lambda>i j. at3 vol i j ix)\<rparr>"
  have g: "get_slice vol ix = Inr ?s" using assms(1,2) by (simp add: get_slice_def)
  obtain m where "np_max ?s = Inr m" using np_max_total [of ?s w h] assms(3,4) by auto
  then show ?thesis by (simp add: normalize_slice_def g)
qed

lemma train_slice_total:
  assumes vol: "shape3 vol = (w, h, d)" "ix < d" "0 < w" "0 < h"
    and lbl: "\<exists>t. lbl_of ix = Inr t"
    and net: "\<forall>s slc. \<exists>r. unet_call L s slc = Inr r"
    and loss: "\<forall>p t. \<exists>l. loss_call L p t = Inr l"
  shows "\<exists>nb'. train_slice L vol lbl_of nb ix = Inr nb'"
proof -
  obtain slc where n: "normalize_slice vol ix = Inr slc"
    using normalize_slice_total [OF vol] by blast
  obtain t where t: "lbl_of ix = Inr t" using lbl by blast
  obtain p s2 where f: "unet_call L (optimizer_zero_grad L (torch nb)) slc = Inr (p, s2)"
    using net by (metis surj_pair)
  obtain l where l: "loss_call L p t = Inr l" using loss by blast
  show ?thesis
    unfolding train_slice_def n bindE_simps train_on_slice_Inr using t f l by blast
qed

lemma training_loop_total:
  assumes vol: "shape3 vol = (w, h, d)" "15 \<le> d" "0 < w" "0 < h"
    and lbl: "\<forall>ix<15. \<exists>t. lbl_of ix = Inr t"
    and net: "\<forall>s slc. \<exists>r. unet_call L s slc = Inr r"
    and loss: "\<forall>p t. \<exists>l. loss_call L p t = Inr l"
  shows "\<exists>nb'. training_loop L vol lbl_of nb = Inr nb'"
proof -
  have slice: "\<forall>ix\<in>set [0..<15]. \<forall>nb. \<exists>nb'. train_slice L vol lbl_of nb ix = Inr nb'"
  proof (intro ballI allI)
    fix ix nb assume "ix \<in> set [0..<15]"
    then have "ix < d" "\<exists>t. lbl_of ix = Inr t" using vol(2) lbl by auto
    then show "\<exists>nb'. train_slice L vol lbl_of nb ix = Inr nb'"
      using train_slice_total [OF vol(1) _ vol(3,4) _ net loss] by blast
  qed
  have epoch: "\<forall>e\<in>set [0..<10]. \<forall>nb. \<exists>nb'. train_epoch L vol lbl_of nb e = Inr nb'"
  proof (intro ballI allI)
    fix e nb
    obtain nb1 where "foldE (train_slice L vol lbl_of) [0..<15] nb = Inr nb1"
      using foldE_total [OF slice] by blast
    then show "\<exists>nb'. train_epoch L vol lbl_of nb e = Inr nb'"
      by (simp add: train_epoch_def)
  qed
  show ?thesis unfolding training_loop_def using foldE_total [OF epoch] by blast
qed


lemma counting_lib_total:
  "\<forall>s slc. \<exists>r. unet_call counting_lib s slc = Inr r"
  "\<forall>p t. \<exists>l. loss_call counting_lib p t = Inr l"
  by (simp_all add: counting_lib_def)


text \<open>
  C7 as stated fails: on a volume of zeros, with a library whose calls return, the
  training loop raises nothing and makes all its 150 optimizer steps.
\<close>

theorem zero_volume_training_completes:
  "(\<forall>i j k. at3 zero_volume i j k = Finite 0) \<and>
   (\<exists>nb'. training_loop counting_lib zero_volume (\<lambda>ix. Inr ()) fresh_notebook = Inr nb' \<and>
      length (filter (\<lambda>c. c = Step) (calls nb')) = 150)"
proof -
  have "shape3 zero_volume = (1, 2, 15)" by (simp add: zero_volume_def)
  from training_loop_total [OF this _ _ _ _ counting_lib_total, of "\<lambda>ix. Inr ()" fresh_notebook]
  obtain nb' where nb': "training_loop counting_lib zero_volume (\<lambda>ix. Inr ()) fresh_notebook = Inr nb'"
    by auto
  have c: "calls nb' = concat (map epoch_calls [0..<10])"
    using training_loop_calls [OF nb'] by (simp add: fresh_notebook_def)
  have "length (filter (\<lambda>c. c = Step) (concat (map epoch_calls [0..<10]))) = 150"
    by (simp add: epoch_calls_def slice_calls_def upt_rec)
  then show ?thesis using nb' c by (simp add: zero_volume_def)
qed

subsection \<open>Arg-max and reconstruction\<close>

lemma argmax_from_max:
  assumes "bi < length pre" "best = pre ! bi" "\<forall>k<length pre. pre ! k \<le> best"
    "\<forall>k<bi. pre ! k < best"
  shows "argmax_from best bi (length pre) xs < length (pre @ xs) \<and>
    (\<forall>k<length (pre @ xs). (pre @ xs) ! k \<le> (pre @ xs) ! argmax_from best bi (length pre) xs) \<and>
    (\<forall>k<argmax_from best bi (length pre) xs.
        (pre @ xs) ! k < (pre @ xs) ! argmax_from best bi (length pre) xs)"
  using assms
proof (induction xs arbitrary: pre best bi)
  case Nil
  then show ?case by simp
next
  case (Cons x xs)
  let ?pre = "pre @ [x]"
  have app: "?pre @ xs = pre @ x # xs" by simp
  have len: "length ?pre = Suc (length pre)" by simp
  show ?case
  proof (cases "best < x")
    case True
    have "length pre < length ?pre" "x = ?pre ! length pre" by simp_all
    moreover have "\<forall>k<length ?pre. ?pre ! k \<le> x"
      using Cons.prems(3) True by (auto simp add: nth_append less_Suc_eq)
    moreover have "\<forall>k<length pre. ?pre ! k < x"
      using Cons.prems(3) True by (auto simp add: nth_append)
    ultimately show ?thesis
      using Cons.IH [of "length pre" ?pre x] True unfolding app len by simp
  next
    case False
    have "bi < length ?pre" "best = ?pre ! bi"
      using Cons.prems(1,2) by (simp_all add: nth_append)
    moreover have "\<forall>k<length ?pre. ?pre ! k \<le> best"
      using Cons.prems(3) False by (auto simp add: nth_append less_Suc_eq)
    moreover have "\<forall>k<bi. ?pre ! k < best"
      using Cons.prems(1,4) by (auto simp add: nth_append)
    ultimately show ?thesis
      using Cons.IH [of bi ?pre best] False unfolding app len by simp
  qed
qed

lemma first_argmax_max:
  assumes "xs \<noteq> []"
  shows "first_argmax xs < length xs"
    and "\<forall>k<length xs. xs ! k \<le> xs ! first_argmax xs"
    and "\<forall>k<first_argmax xs. xs ! k < xs ! first_argmax xs"
proof -
  obtain x ys where xs: "xs = x # ys" using assms by (cases xs) auto
  have "argmax_from x 0 (length [x]) ys < length ([x] @ ys) \<and>
    (\<forall>k<length ([x] @ ys). ([x] @ ys) ! k \<le> ([x] @ ys) ! argmax_from x 0 (length [x]) ys) \<and>
    (\<forall>k<argmax_from x 0 (length [x]) ys.
        ([x] @ ys) ! k < ([x] @ ys) ! argmax_from x 0 (length [x]) ys)"
    by (rule argmax_from_max) simp_all
  then show "first_argmax xs < length xs"
    and "\<forall>k<length xs. xs ! k \<le> xs ! first_argmax xs"
    and "\<forall>k<first_argmax xs. xs ! k < xs ! first_argmax xs"
    unfolding xs first_argmax_def by simp_all
qed

lemma torch_argmax_dim0_max:
  assumes "shape3 pred = (c, h, w)" "0 < c"
  shows "\<exists>mask. torch_argmax_dim0 pred = Inr mask \<and> shape2 mask = (h, w) \<and>
    (\<forall>i j. at2 mask i j < c \<and>
       (\<forall>k<c. at3 pred k i j \<le> at3 pred (at2 mask i j) i j) \<and>
       (\<forall>k<at2 mask i j. at3 pred k i j < at3 pred (at2 mask i j) i j))"
proof -
  let ?xs = "\<lambda>i j. map (\<lambda>k. at3 pred k i j) [0..<c]"
  have ne: "\<And>i j. ?xs i j \<noteq> []" using assms(2) by simp
  have "\<And>i j. first_argmax (?xs i j) < c \<and>
      (\<forall>k<c. at3 pred k i j \<le> at3 pred (first_argmax (?xs i j)) i j) \<and>
      (\<forall>k<first_argmax (?xs i j). at3 pred k i j < at3 pred (first_argmax (?xs i j)) i j)"
  proof -
    fix i j
    have b: "first_argmax (?xs i j) < c" using first_argmax_max(1) [OF ne, of i j] by simp
    have "\<forall>k<c. ?xs i j ! k \<le> ?xs i j ! first_argmax (?xs i j)"
      using first_argmax_max(2) [OF ne, of i j] by simp
    moreover have "\<forall>k<first_argmax (?xs i j). ?xs i j ! k < ?xs i j ! first_argmax (?xs i j)"
      using first_argmax_max(3) [OF ne, of i j] by simp
    ultimately show "first_argmax (?xs i j) < c \<and>
      (\<forall>k<c. at3 pred k i j \<le> at3 pred (first_argmax (?xs i j)) i j) \<and>
      (\<forall>k<first_argmax (?xs i j). at3 pred k i j < at3 pred (first_argmax (?xs i j)) i j)"
      using b by auto
  qed
  then show ?thesis using assms by (simp add: torch_argmax_dim0_def)
qed


lemma normalize_slice_shape:
  assumes "shape3 vol = (w, h, d)" "normalize_slice vol k = Inr slc"
  shows "shape2 slc = (w, h)"
  using assms unfolding normalize_slice_Inr get_slice_def by (auto split: if_splits)

lemma infer_slice_step:
  assumes vol: "shape3 vol = (w, h, d)" "k < d" "0 < w" "0 < h"
    and m: "shape3 m = (w, h, d)"
    and net: "\<forall>slc. shape2 slc = (w, h) \<longrightarrow>
      (\<exists>pred c. net slc = Inr pred \<and> 0 < c \<and> shape3 pred = (c, w, h))"
  shows "\<exists>m' slc pred c mask. infer_slice net vol m k = Inr m' \<and> shape3 m' = (w, h, d) \<and>
    normalize_slice vol k = Inr slc \<and> net slc = Inr pred \<and> shape3 pred = (c, w, h) \<and>
    torch_argmax_dim0 pred = Inr mask \<and> shape2 mask = (w, h) \<and>
    (\<forall>i j. at3 m' i j k = at2 mask i j) \<and>
    (\<forall>i j k'. k' \<noteq> k \<longrightarrow> at3 m' i j k' = at3 m i j k')"
proof -
  obtain slc where slc: "normalize_slice vol k = Inr slc"
    using normalize_slice_total [OF vol] by blast
  have "shape2 slc = (w, h)" using normalize_slice_shape [OF vol(1) slc] .
  then obtain pred c where pred: "net slc = Inr pred" "0 < c" "shape3 pred = (c, w, h)"
    using net by blast
  obtain mask where mask: "torch_argmax_dim0 pred = Inr mask" "shape2 mask = (w, h)"
    using torch_argmax_dim0_max [OF pred(3,2)] by blast
  have "set_slice m k mask = Inr \<lparr>shape3 = (w, h, d),
      at3 = (\<lambda>i j k'. if k' = k then at2 mask i j else at3 m i j k')\<rparr>"
    using m mask(2) vol(2) by (simp add: set_slice_def cong: if_cong)
  then show ?thesis
    unfolding infer_slice_def using slc pred mask by simp
qed

lemma upt_Suc_snoc: "[0..<Suc n] = [0..<n] @ [n]"
  by simp

lemma reconstruct_prefix:
  assumes vol: "shape3 vol = (w, h, d)" "0 < w" "0 < h"
    and net: "\<forall>slc. shape2 slc = (w, h) \<longrightarrow>
      (\<exists>pred c. net slc = Inr pred \<and> 0 < c \<and> shape3 pred = (c, w, h))"
    and m0: "shape3 m0 = (w, h, d)"
  shows "n \<le> d \<Longrightarrow> \<exists>out. foldE (infer_slice net vol) [0..<n] m0 = Inr out \<and>
    shape3 out = (w, h, d) \<and>
    (\<forall>k<n. \<exists>slc pred c mask. normalize_slice vol k = Inr slc \<and> net slc = Inr pred \<and>
       shape3 pred = (c, w, h) \<and> torch_argmax_dim0 pred = Inr mask \<and>
       shape2 mask = (w, h) \<and> (\<forall>i j. at3 out i j k = at2 mask i j))"
proof (induction n)
  case 0
  then show ?case using m0 by simp
next
  case (Suc n)
  then obtain out where out: "foldE (infer_slice net vol) [0..<n] m0 = Inr out"
    "shape3 out = (w, h, d)"
    "\<forall>k<n. \<exists>slc pred c mask. normalize_slice vol k = Inr slc \<and> net slc = Inr pred \<and>
       shape3 pred = (c, w, h) \<and> torch_argmax_dim0 pred = Inr mask \<and>
       shape2 mask = (w, h) \<and> (\<forall>i j. at3 out i j k = at2 mask i j)"
    by auto
  have n: "n < d" using Suc.prems by simp
  obtain m' slc pred c mask where st: "infer_slice net vol out n = Inr m'"
    "shape3 m' = (w, h, d)"
    "normalize_slice vol n = Inr slc" "net slc = Inr pred" "shape3 pred = (c, w, h)"
    "torch_argmax_dim0 pred = Inr mask" "shape2 mask = (w, h)"
    "\<forall>i j. at3 m' i j n = at2 mask i j"
    "\<forall>i j k'. k' \<noteq> n \<longrightarrow> at3 m' i j k' = at3 out i j k'"
    using infer_slice_step [OF vol(1) n vol(2,3) out(2) net] by blast
  have f: "foldE (infer_slice net vol) [0..<Suc n] m0 = Inr m'"
    unfolding upt_Suc_snoc foldE_append out(1) using st(1) by simp
  have "\<exists>slc pred c mask. normalize_slice vol k = Inr slc \<and> net slc = Inr pred \<and>
       shape3 pred = (c, w, h) \<and> torch_argmax_dim0 pred = Inr mask \<and>
       shape2 mask = (w, h) \<and> (\<forall>i j. at3 m' i j k = at2 mask i j)" if "k < Suc n" for k
  proof (cases "k = n")
    case True
    then show ?thesis using st by blast
  next
    case False
    then have "k < n" using that by simp
    moreover have "\<forall>i j. at3 m' i j k = at3 out i j k" using st(9) False by simp
    ultimately show ?thesis using out(3) by simp
  qed
  then show ?case using f st(2) by blast
qed

text \<open>
  C9. Given a network that returns, for a slice of the volume's width and height, at
  least one channel map of that width and height, the reconstruction runs through on a
  volume of any depth; its result has the shape of the input volume; and at every depth
  index its slice is the arg-max over the channel axis of the network's output on the
  normalised slice of that index: a label slice of the width and height of the input
  slice whose value at each pixel is the first channel of largest output.
\<close>

theorem reconstruct_argmax_volume:
  assumes "shape3 vol = (w, h, d)" "0 < w" "0 < h"
    and "\<forall>slc. shape2 slc = (w, h) \<longrightarrow>
      (\<exists>pred c. net slc = Inr pred \<and> 0 < c \<and> shape3 pred = (c, w, h))"
  shows "\<exists>mask3d. reconstruct net vol = Inr mask3d \<and> shape3 mask3d = shape3 vol \<and>
    (\<forall>k<d. \<exists>slc pred c mask. normalize_slice vol k = Inr slc \<and> net slc = Inr pred \<and>
       shape3 pred = (c, w, h) \<and> torch_argmax_dim0 pred = Inr mask \<and> shape2 mask = (w, h) \<and>
       (\<forall>i j. at3 mask3d i j k = at2 mask i j \<and> at2 mask i j < c \<and>
          (\<forall>ch<c. at3 pred ch i j \<le> at3 pred (at2 mask i j) i j) \<and>
          (\<forall>ch<at2 mask i j. at3 pred ch i j < at3 pred (at2 mask i j) i j)))"
proof -
  let ?m0 = "\<lparr>shape3 = (w, h, d), at3 = (\<lambda>i j k. 0::nat)\<rparr>"
  have "shape3 ?m0 = (w, h, d)" by simp
  from reconstruct_prefix [OF assms this, of d]
  obtain out where out: "foldE (infer_slice net vol) [0..<d] ?m0 = Inr out"
    "shape3 out = (w, h, d)"
    "\<forall>k<d. \<exists>slc pred c mask. normalize_slice vol k = Inr slc \<and> net slc = Inr pred \<and>
       shape3 pred = (c, w, h) \<and> torch_argmax_dim0 pred = Inr mask \<and>
       shape2 mask = (w, h) \<and> (\<forall>i j. at3 out i j k = at2 mask i j)"
    by auto
  have r: "reconstruct net vol = Inr out"
    using out(1) assms(1) by (simp add: reconstruct_def)
  have "\<exists>slc pred c mask. normalize_slice vol k = Inr slc \<and> net slc = Inr pred \<and>
       shape3 pred = (c, w, h) \<and> torch_argmax_dim0 pred = Inr mask \<and> shape2 mask = (w, h) \<and>
       (\<forall>i j. at3 out i j k = at2 mask i j \<and> at2 mask i j < c \<and>
          (\<forall>ch<c. at3 pred ch i j \<le> at3 pred (at2 mask i j) i j) \<and>
          (\<forall>ch<at2 mask i j. at3 pred ch i j < at3 pred (at2 mask i j) i j))" if kd: "k < d" for k
  proof -
    obtain slc pred c mask where k: "normalize_slice vol k = Inr slc" "net slc = Inr pred"
      "shape3 pred = (c, w, h)" "torch_argmax_dim0 pred = Inr mask" "shape2 mask = (w, h)"
      "\<forall>i j. at3 out i j k = at2 mask i j"
      using out(3) kd by blast
    have "shape2 slc = (w, h)" using normalize_slice_shape [OF assms(1) k(1)] .
    then have c: "0 < c" using assms(4) k(2,3) by fastforce
    from torch_argmax_dim0_max [OF k(3) c] k(4)
    have "\<forall>i j. at2 mask i j < c \<and>
       (\<forall>ch<c. at3 pred ch i j \<le> at3 pred (at2 mask i j) i j) \<and>
       (\<forall>ch<at2 mask i j. at3 pred ch i j < at3 pred (at2 mask i j) i j)"
      by auto
    then show ?thesis using k by blast
  qed
  then show ?thesis using r out(2) assms(1) by auto
qed

lemma second_class_net_shape:
  "\<forall>slc. shape2 slc = (w, h) \<longrightarrow>
    (\<exists>pred c. second_class_net slc = Inr pred \<and> 0 < c \<and> shape3 pred = (c, w, h))"
  by (simp add: second_class_net_def)

theorem reconstruct_argmax_volume_witness:
  "\<exists>mask3d. reconstruct second_class_net ct_volume = Inr mask3d \<and>
     shape3 mask3d = (1, 2, 15) \<and> at3 mask3d 0 0 0 = 1 \<and> at3 mask3d 0 1 14 = 1"
proof -
  have s: "shape3 ct_volume = (1, 2, 15)" by (simp add: ct_volume_def)
  from reconstruct_argmax_volume [OF s _ _ second_class_net_shape]
  obtain mask3d where m: "reconstruct second_class_net ct_volume = Inr mask3d"
    "shape3 mask3d = shape3 ct_volume"
    "\<forall>k<15. \<exists>slc pred c mask. normalize_slice ct_volume k = Inr slc \<and>
       second_class_net slc = Inr pred \<and>
       shape3 pred = (c, 1, 2) \<and> torch_argmax_dim0 pred = Inr mask \<and> shape2 mask = (1, 2) \<and>
       (\<forall>i j. at3 mask3d i j k = at2 mask i j \<and> at2 mask i j < c \<and>
          (\<forall>ch<c. at3 pred ch i j \<le> at3 pred (at2 mask i j) i j) \<and>
          (\<forall>ch<at2 mask i j. at3 pred ch i j < at3 pred (at2 mask i j) i j))"
    by auto
  have v: "at3 mask3d i j k = 1" if kd: "k < 15" for i j k
  proof -
    obtain slc pred mask where k: "second_class_net slc = Inr pred"
      "torch_argmax_dim0 pred = Inr mask" "at3 mask3d i j k = at2 mask i j"
      using m(3) kd by blast
    obtain w h where "shape2 slc = (w, h)" by (cases "shape2 slc") auto
    then have "pred = \<lparr>shape3 = (2, w, h), at3 = (\<lambda>c i j. if c = 1 then 3 / 4 else 1 / 4)\<rparr>"
      using k(1) by (simp add: second_class_net_def)
    then have "at2 mask i j = 1"
      using k(2) by (auto simp add: torch_argmax_dim0_def first_argmax_def upt_rec)
    then show ?thesis using k(3) by simp
  qed
  show ?thesis using m(1,2) s v [of 0 0 0] v [of 14 0 1] by simp
qed

end
